theory Spec2Isabelle
  imports Main
begin

section \<open>The minimal example: \<open>string_creator\<close>\<close>

text \<open>
  Python strings are modelled as \<open>string\<close>; a symbol outside ASCII is the list of its
  UTF-8 bytes, and repetition and concatenation commute with that encoding.
  Python's \<open>s * n\<close> on a string or a list repeats the sequence \<open>n\<close> times and yields the
  empty sequence for \<open>n \<le> 0\<close>. The parameter \<open>length\<close> of the source, a Python \<open>int\<close>, is written
  \<open>len\<close> here.
\<close>

definition seq_mul :: "'a list \<Rightarrow> int \<Rightarrow> 'a list" where
  "seq_mul xs n = concat (replicate (nat n) xs)"

text \<open>\<open>sep.join(parts)\<close>\<close>

fun join :: "string \<Rightarrow> string list \<Rightarrow> string" where
  "join sep [] = []"
| "join sep [x] = x"
| "join sep (x # y # ys) = x @ sep @ join sep (y # ys)"

definition newline :: string where
  "newline = [CHR 0x0A]"

text \<open>\<open>streamlit_minimal.py\<close>, lines 16-18.\<close>

definition string_creator_minimal :: "string \<Rightarrow> int \<Rightarrow> string" where
  "string_creator_minimal symbol len = seq_mul symbol len"

text \<open>
  \<open>solutions/streamlit_minimal_solved.py\<close>, lines 10-18. \<open>if prefix:\<close> tests the
  truthiness of a string, which is its being non-empty.
\<close>

definition string_creator :: "string \<Rightarrow> int \<Rightarrow> string \<Rightarrow> bool \<Rightarrow> string" where
  "string_creator symbol len prefix make_square =
     (let result = seq_mul symbol len;
          result = (if make_square
                    then join newline (seq_mul [seq_mul symbol len] len)
                    else result)
      in if prefix \<noteq> [] then prefix @ '':'' @ newline @ result else result)"

text \<open>
  The wording of the description of the solved function, written independently of the
  code: a symbol repeated \<open>n\<close> times, and \<open>k\<close> copies of a line joined by newlines.
\<close>

primrec repeated :: "nat \<Rightarrow> string \<Rightarrow> string" where
  "repeated 0 s = []"
| "repeated (Suc n) s = s @ repeated n s"

primrec lines_joined :: "nat \<Rightarrow> string \<Rightarrow> string" where
  "lines_joined 0 line = []"
| "lines_joined (Suc k) line = (if k = 0 then line else line @ [CHR 0x0A] @ lines_joined k line)"

definition string_creator_described :: "string \<Rightarrow> nat \<Rightarrow> string \<Rightarrow> bool \<Rightarrow> string" where
  "string_creator_described symbol n prefix make_square =
     (let body = (if make_square then lines_joined n (repeated n symbol) else repeated n symbol)
      in if prefix = [] then body else prefix @ [CHR '':''] @ [CHR 0x0A] @ body)"

section \<open>The FOOOF app: data\<close>

text \<open>
  \<open>solutions/streamlit_fooof_solved.py\<close> is a script that the framework runs from top to
  bottom on every interaction (one run is a cycle). It calls the recording library, the
  fitting library and the plotting library; none of them belongs to the repository, so
  their functions are parameters of the model, each returning either the exception it
  raises or its value. Floating-point numbers are an abstract type \<open>'n\<close>, and Python's
  \<open>round(x, 2)\<close> on them is a parameter as well.
\<close>

datatype 'e error =
    TypeError      \<comment> \<open>\<open>Path(None)\<close>\<close>
  | IndexError     \<comment> \<open>an index out of range in the script's own code\<close>
  | Raised 'e      \<comment> \<open>an exception raised inside a library call\<close>

datatype aperiodic_mode = Fixed | Knee

text \<open>The values of the sidebar widgets, lines 90-109: the parameter set of one cycle.\<close>

record 'n params =
  channel :: string
  f_range :: "int \<times> int"
  peak_width :: "'n \<times> 'n"
  max_n_peaks :: int
  aperiodic_mode :: aperiodic_mode
  annotate_peaks :: bool
  annotate_aperiodic :: bool

text \<open>
  The two attributes of the fitted \<open>FOOOF\<close> object that the script reads:
  \<open>aperiodic_params_\<close>, a one-dimensional array, and \<open>peak_params_\<close>, a two-dimensional
  array with one row per peak.
\<close>

record 'n fooof =
  aperiodic_params :: "'n list"
  peak_params :: "'n list list"

text \<open>
  The library calls of the script: \<open>mne.io.read_raw_fif\<close>; \<open>mne.pick_types\<close> followed by
  \<open>mne.pick_info(...)['ch_names']\<close>; \<open>raw.compute_psd(fmin=0, fmax=250)\<close>;
  \<open>spec.get_data(picks=channel, return_freqs=True)\<close>; \<open>np.squeeze\<close>; the construction of
  the \<open>FOOOF\<close> object from its three settings followed by
  \<open>fm.fit(freqs, psd, freq_range=f_range)\<close>; \<open>plot_annotated_model\<close> with its two annotation
  flags and \<open>plt_log\<close>; and \<open>round(x, 2)\<close>.
\<close>

record ('raw, 'spec, 'arr, 'n, 'ax, 'e) library =
  read_raw_fif :: "string \<Rightarrow> 'e + 'raw"
  pick_ch_names :: "'raw \<Rightarrow> 'e + string list"
  compute_psd :: "'raw \<Rightarrow> 'e + 'spec"
  get_data :: "'spec \<Rightarrow> string \<Rightarrow> 'e + 'arr \<times> 'arr"
  squeeze :: "'arr \<Rightarrow> 'arr"
  fooof_fit :: "'n \<times> 'n \<Rightarrow> int \<Rightarrow> aperiodic_mode \<Rightarrow> 'arr \<Rightarrow> 'arr \<Rightarrow> int \<times> int \<Rightarrow> 'e + 'n fooof"
  plot_annotated_model :: "'n fooof \<Rightarrow> bool \<Rightarrow> bool \<Rightarrow> bool \<Rightarrow> 'e + 'ax"
  round2 :: "'n \<Rightarrow> 'n"

text \<open>
  What a cycle does besides computing its result: the warnings it shows and the library
  calls it executes, in order. A call that raises is logged as well.
\<close>

datatype 'n event =
    Warning string
  | ReadRawFif string
  | PickChNames
  | ComputePsd
  | GetData string
  | Fit "'n \<times> 'n" int aperiodic_mode "int \<times> int"
  | PlotAnnotatedModel bool

type_synonym ('n, 'e, 'a) logged = "('e error + 'a) \<times> 'n event list"

definition call :: "'n event \<Rightarrow> 'e + 'a \<Rightarrow> ('n, 'e, 'a) logged" where
  "call ev r = (case r of Inl e \<Rightarrow> (Inl (Raised e), [ev]) | Inr a \<Rightarrow> (Inr a, [ev]))"

text \<open>Sequencing: an error ends the run, as an uncaught exception ends the script.\<close>

definition and_then :: "('n, 'e, 'a) logged \<Rightarrow> ('a \<Rightarrow> ('n, 'e, 'b) logged) \<Rightarrow> ('n, 'e, 'b) logged" where
  "and_then m f =
     (case m of
        (Inl e, l) \<Rightarrow> (Inl e, l)
      | (Inr a, l) \<Rightarrow> (case f a of (r, l') \<Rightarrow> (r, l @ l')))"

section \<open>The FOOOF app: the cached upstream stages\<close>

text \<open>
  Modelled from the spec: the cache service behind the decorator \<open>@st.cache_data\<close>, which
  is the framework's and not under src/. The spec describes it as process-wide,
  append-only, never invalidated or evicted, keyed by the identity of the inputs of the
  decorated function, with values immutable once inserted. A call looks its argument
  tuple up; on a hit the entry is returned and the body is not executed; on a miss the
  body runs and its value, if it returns one, is stored under the key.
\<close>

definition cache_data ::
  "('k \<rightharpoonup> 'v) \<Rightarrow> 'k \<Rightarrow> ('n, 'e, 'v) logged \<Rightarrow> ('e error + 'v) \<times> ('k \<rightharpoonup> 'v) \<times> 'n event list" where
  "cache_data entries key body =
     (case entries key of
        Some v \<Rightarrow> (Inr v, entries, [])
      | None \<Rightarrow>
          (case body of
             (Inl e, l) \<Rightarrow> (Inl e, entries, l)
           | (Inr v, l) \<Rightarrow> (Inr v, entries(key \<mapsto> v), l)))"

text \<open>
  The two caches of the script. \<open>load_data\<close> has one argument, \<open>path_to_data\<close>, which is
  \<open>None\<close> or a string; \<open>get_spectrum\<close> has no argument, so its only key is the empty
  argument tuple.
\<close>

record ('raw, 'spec) cache =
  load_data_cache :: "string option \<rightharpoonup> 'raw"
  get_spectrum_cache :: "unit \<rightharpoonup> 'spec"

definition empty_cache :: "('raw, 'spec) cache" where
  "empty_cache = \<lparr>load_data_cache = Map.empty, get_spectrum_cache = Map.empty\<rparr>"

text \<open>
  Line 55: \<open>Path(path_to_data) / 'sub-01' / 'sub-01-raw.fif'\<close>, as a string. A POSIX path
  is parsed into its root and its parts: the root is \<open>//\<close> for exactly two leading
  slashes, \<open>/\<close> for any other number of them and empty otherwise; the parts are the
  pieces between slashes, without the empty ones and the dots. So \<open>/a\<close> and \<open>/a/\<close>
  name the same file, and the empty path names a relative one.
\<close>

fun split_slash :: "string \<Rightarrow> string list" where
  "split_slash [] = [[]]"
| "split_slash (c # cs) =
     (if c = CHR ''/'' then [] # split_slash cs
      else (case split_slash cs of [] \<Rightarrow> [[c]] | w # ws \<Rightarrow> (c # w) # ws))"

definition path_root :: "string \<Rightarrow> string" where
  "path_root p =
     (if take 2 p = ''//'' \<and> take 3 p \<noteq> ''///'' then ''//''
      else if take 1 p = ''/'' then ''/''
      else [])"

definition path_parts :: "string \<Rightarrow> string list" where
  "path_parts p = filter (\<lambda>x. x \<noteq> [] \<and> x \<noteq> ''.'') (split_slash p)"

definition path_to_file :: "string \<Rightarrow> string" where
  "path_to_file p = path_root p @ join ''/'' (path_parts p @ [''sub-01'', ''sub-01-raw.fif''])"

text \<open>Lines 54-56, the body of \<open>load_data\<close>.\<close>

definition load_data_body ::
  "('raw, 'spec, 'arr, 'n, 'ax, 'e) library \<Rightarrow> string option \<Rightarrow> ('n, 'e, 'raw) logged" where
  "load_data_body lib path_to_data =
     (case path_to_data of
        None \<Rightarrow> (Inl TypeError, [])
      | Some p \<Rightarrow> call (ReadRawFif (path_to_file p)) (read_raw_fif lib (path_to_file p)))"

text \<open>Lines 53-56, \<open>load_data\<close> under its decorator.\<close>

definition load_data ::
  "('raw, 'spec, 'arr, 'n, 'ax, 'e) library \<Rightarrow> string option \<Rightarrow> ('raw, 'spec) cache \<Rightarrow>
   ('e error + 'raw) \<times> ('raw, 'spec) cache \<times> 'n event list" where
  "load_data lib path_to_data c =
     (case cache_data (load_data_cache c) path_to_data (load_data_body lib path_to_data) of
        (r, entries, l) \<Rightarrow> (r, c\<lparr>load_data_cache := entries\<rparr>, l))"

text \<open>
  Lines 59-61, \<open>get_spectrum\<close> under its decorator. The body reads the global \<open>raw\<close>,
  which is therefore an input of the model but not part of the cache key.
\<close>

definition get_spectrum ::
  "('raw, 'spec, 'arr, 'n, 'ax, 'e) library \<Rightarrow> 'raw \<Rightarrow> ('raw, 'spec) cache \<Rightarrow>
   ('e error + 'spec) \<times> ('raw, 'spec) cache \<times> 'n event list" where
  "get_spectrum lib raw c =
     (case cache_data (get_spectrum_cache c) () (call ComputePsd (compute_psd lib raw)) of
        (r, entries, l) \<Rightarrow> (r, c\<lparr>get_spectrum_cache := entries\<rparr>, l))"

definition path_warning :: string where
  "path_warning = ''Please specify the full path to the dataset in the variable `path_to_data` (line XXX)''"

text \<open>
  Lines 40-73: the warning for an unset path, then \<open>load_data\<close>, the channel names
  (\<open>mne.pick_types\<close> and \<open>mne.pick_info\<close>, used only as the options of the channel
  widget) and \<open>get_spectrum\<close>. The script does not stop after the warning.
\<close>

definition upstream ::
  "('raw, 'spec, 'arr, 'n, 'ax, 'e) library \<Rightarrow> string option \<Rightarrow> ('raw, 'spec) cache \<Rightarrow>
   ('e error + 'spec) \<times> ('raw, 'spec) cache \<times> 'n event list" where
  "upstream lib path_to_data c =
     (let warned = (if path_to_data = None then [Warning path_warning] else [])
      in case load_data lib path_to_data c of
           (Inl e, c1, l1) \<Rightarrow> (Inl e, c1, warned @ l1)
         | (Inr raw, c1, l1) \<Rightarrow>
             (case call PickChNames (pick_ch_names lib raw) of
                (Inl e, l2) \<Rightarrow> (Inl e, c1, warned @ l1 @ l2)
              | (Inr meeg_ch_names, l2) \<Rightarrow>
                  (case get_spectrum lib raw c1 of
                     (Inl e, c2, l3) \<Rightarrow> (Inl e, c2, warned @ l1 @ l2 @ l3)
                   | (Inr spec, c2, l3) \<Rightarrow> (Inr spec, c2, warned @ l1 @ l2 @ l3))))"

text \<open>
  The loads of a whole lifetime of the process: \<open>load_data\<close> called for one path after
  another, whatever each call returns. The trace keeps, for every call, its argument and
  the library calls it executed.
\<close>

fun load_all ::
  "('raw, 'spec, 'arr, 'n, 'ax, 'e) library \<Rightarrow> string option list \<Rightarrow> ('raw, 'spec) cache \<Rightarrow>
   ('raw, 'spec) cache \<times> (string option \<times> 'n event list) list" where
  "load_all lib [] c = (c, [])"
| "load_all lib (p # ps) c =
     (case load_data lib p c of
        (r, c1, l1) \<Rightarrow> (case load_all lib ps c1 of (c2, t) \<Rightarrow> (c2, (p, l1) # t)))"


section \<open>The FOOOF app: fit and display\<close>

text \<open>
  Lines 169-175: the spectrum of the selected channel, then the \<open>FOOOF\<close> object and its
  fit. The widget values go to the library as they are.
\<close>

definition fit_stage ::
  "('raw, 'spec, 'arr, 'n, 'ax, 'e) library \<Rightarrow> 'spec \<Rightarrow> 'n params \<Rightarrow> ('n, 'e, 'n fooof) logged" where
  "fit_stage lib spec ps =
     and_then (call (GetData (channel ps)) (get_data lib spec (channel ps)))
       (\<lambda>(psd, freqs).
          call (Fit (peak_width ps) (max_n_peaks ps) (aperiodic_mode ps) (f_range ps))
            (fooof_fit lib (peak_width ps) (max_n_peaks ps) (aperiodic_mode ps)
               freqs (squeeze lib psd) (f_range ps)))"

text \<open>Lines 179-188: the figure, two titled axes drawn by \<open>plot_annotated_model\<close>.\<close>

definition plot_stage ::
  "('raw, 'spec, 'arr, 'n, 'ax, 'e) library \<Rightarrow> 'n fooof \<Rightarrow> 'n params \<Rightarrow>
   ('n, 'e, (string \<times> 'ax) list) logged" where
  "plot_stage lib fm ps =
     and_then (call (PlotAnnotatedModel False)
                 (plot_annotated_model lib fm (annotate_peaks ps) (annotate_aperiodic ps) False))
       (\<lambda>ax_linear.
          and_then (call (PlotAnnotatedModel True)
                      (plot_annotated_model lib fm (annotate_peaks ps) (annotate_aperiodic ps) True))
            (\<lambda>ax_log. (Inr [(''Linear axes'', ax_linear), (''Log-scaled axes'', ax_log)], [])))"

text \<open>Python indexing of a one-dimensional array: a negative index counts from the end.\<close>

definition getitem :: "'a list \<Rightarrow> int \<Rightarrow> 'e error + 'a" where
  "getitem xs i =
     (if 0 \<le> i \<and> i < int (length xs) then Inr (xs ! nat i)
      else if i < 0 \<and> - int (length xs) \<le> i then Inr (xs ! nat (int (length xs) + i))
      else Inl IndexError)"

text \<open>\<open>a[i, j]\<close> on a two-dimensional array, kept as the list of its rows.\<close>

definition getitem2 :: "'a list list \<Rightarrow> int \<Rightarrow> int \<Rightarrow> 'e error + 'a" where
  "getitem2 rows i j = (case getitem rows i of Inl e \<Rightarrow> Inl e | Inr row \<Rightarrow> getitem row j)"

record ('n, 'ax) display_payload =
  figure :: "(string \<times> 'ax) list"
  metrics :: "(string \<times> 'n) list"

definition peak_label :: string where
  "peak_label = ''Peak frequency (Hz)'' @ newline @ newline @ ''[first peak only]''"

text \<open>
  Lines 201-215: the figure in the left column, the metrics in the right one.
  \<open>fm.peak_params_.shape[0]\<close> is the number of rows, tested for being non-zero.
\<close>

definition render ::
  "('raw, 'spec, 'arr, 'n, 'ax, 'e) library \<Rightarrow> (string \<times> 'ax) list \<Rightarrow> 'n fooof \<Rightarrow>
   'e error + ('n, 'ax) display_payload" where
  "render lib fig_fit fm =
     (case getitem (aperiodic_params fm) 0 of
        Inl e \<Rightarrow> Inl e
      | Inr offset \<Rightarrow>
          (case getitem (aperiodic_params fm) (- 1) of
             Inl e \<Rightarrow> Inl e
           | Inr exponent \<Rightarrow>
               (if length (peak_params fm) \<noteq> 0
                then (case getitem2 (peak_params fm) 0 0 of
                        Inl e \<Rightarrow> Inl e
                      | Inr cf \<Rightarrow>
                          Inr \<lparr>figure = fig_fit,
                               metrics = [(''Offset'', round2 lib offset),
                                          (''Exponent'', round2 lib exponent),
                                          (peak_label, round2 lib cf)]\<rparr>)
                else Inr \<lparr>figure = fig_fit,
                          metrics = [(''Offset'', round2 lib offset),
                                     (''Exponent'', round2 lib exponent)]\<rparr>)))"

text \<open>Lines 169-215, everything below the cached stages.\<close>

definition fit_and_render ::
  "('raw, 'spec, 'arr, 'n, 'ax, 'e) library \<Rightarrow> 'spec \<Rightarrow> 'n params \<Rightarrow>
   ('n, 'e, ('n, 'ax) display_payload) logged" where
  "fit_and_render lib spec ps =
     and_then (fit_stage lib spec ps)
       (\<lambda>fm. and_then (plot_stage lib fm ps) (\<lambda>fig_fit. (render lib fig_fit fm, [])))"

text \<open>One run of the script.\<close>

definition cycle ::
  "('raw, 'spec, 'arr, 'n, 'ax, 'e) library \<Rightarrow> string option \<Rightarrow> 'n params \<Rightarrow> ('raw, 'spec) cache \<Rightarrow>
   ('e error + ('n, 'ax) display_payload) \<times> ('raw, 'spec) cache \<times> 'n event list" where
  "cycle lib path_to_data ps c =
     (case upstream lib path_to_data c of
        (Inl e, c1, l1) \<Rightarrow> (Inl e, c1, l1)
      | (Inr spec, c1, l1) \<Rightarrow>
          (case fit_and_render lib spec ps of (r, l2) \<Rightarrow> (r, c1, l1 @ l2)))"


text \<open>
  A fit result is well formed when it has at least one aperiodic parameter and no peak
  row is empty (the fitting library gives two or three aperiodic parameters and three
  numbers per peak).
\<close>

definition well_formed :: "'n fooof \<Rightarrow> bool" where
  "well_formed fm \<longleftrightarrow> aperiodic_params fm \<noteq> [] \<and> list_all (\<lambda>row. row \<noteq> []) (peak_params fm)"

fun is_fit :: "'n event \<Rightarrow> bool" where
  "is_fit (Fit pw n mode fr) = True"
| "is_fit ev = False"

section \<open>A small library to run the model on\<close>

text \<open>
  Recordings and spectra are numbers, arrays are lists of numbers, exceptions are their
  names. Two recordings exist; the fit accepts every range and reports no peak.
\<close>

definition demo_lib :: "(nat, nat, nat list, int, string, string) library" where
  "demo_lib =
     \<lparr>read_raw_fif = (\<lambda>p. if p = ''/a/sub-01/sub-01-raw.fif'' then Inr 1
                          else if p = ''/b/sub-01/sub-01-raw.fif'' then Inr 2
                          else Inl ''FileNotFoundError''),
      pick_ch_names = (\<lambda>raw. Inr [''EEG039'']),
      compute_psd = (\<lambda>raw. Inr (10 * raw)),
      get_data = (\<lambda>spec ch. if ch = ''EEG039'' then Inr ([spec], [1, 2, 3]) else Inl ''ValueError''),
      squeeze = (\<lambda>a. a),
      fooof_fit = (\<lambda>pw n mode freqs psd fr.
                     Inr \<lparr>aperiodic_params = [int (sum_list psd), snd fr - fst fr], peak_params = []\<rparr>),
      plot_annotated_model = (\<lambda>fm ap aa plt_log. Inr (if plt_log then ''log'' else ''linear'')),
      round2 = (\<lambda>x. x)\<rparr>"

definition demo_params :: "int params" where
  "demo_params =
     \<lparr>channel = ''EEG039'', f_range = (1, 45), peak_width = (1, 12), max_n_peaks = 3,
      aperiodic_mode = Fixed, annotate_peaks = False, annotate_aperiodic = False\<rparr>"

text \<open>The same library with a fit that raises.\<close>

definition failing_fit_lib :: "(nat, nat, nat list, int, string, string) library" where
  "failing_fit_lib = demo_lib\<lparr>fooof_fit := (\<lambda>pw n mode freqs psd fr. Inl ''FitError'')\<rparr>"

definition warm_cache :: "(nat, nat) cache" where
  "warm_cache = \<lparr>load_data_cache = [Some ''/a'' \<mapsto> 1], get_spectrum_cache = [() \<mapsto> 10]\<rparr>"

definition demo_payload :: "(int, string) display_payload" where
  "demo_payload =
     \<lparr>figure = [(''Linear axes'', ''linear''), (''Log-scaled axes'', ''log'')],
      metrics = [(''Offset'', 10), (''Exponent'', 44)]\<rparr>"

section \<open>Properties of \<open>string_creator\<close>\<close>

lemma seq_mul_repeated: "seq_mul s (int n) = repeated n s"
proof -
  have "concat (replicate n s) = repeated n s" by (induction n) simp_all
  then show ?thesis by (simp add: seq_mul_def)
qed

lemma join_replicate: "join newline (replicate k line) = lines_joined k line"
proof (induction k)
  case 0
  show ?case by simp
next
  case (Suc k)
  show ?case
  proof (cases k)
    case 0
    then show ?thesis by simp
  next
    case (Suc j)
    with Suc.IH show ?thesis by (simp add: newline_def)
  qed
qed

lemma seq_mul_singleton: "seq_mul [x] (int k) = replicate k x"
proof -
  have "concat (replicate k [x]) = replicate k x" by (induction k) simp_all
  then show ?thesis by (simp add: seq_mul_def)
qed

text \<open>
  C9. With an empty prefix and \<open>make_square = False\<close> the solved \<open>string_creator\<close>
  returns, for every symbol and every length (negative ones included), exactly the string
  that the minimal example's \<open>string_creator\<close> returns for that symbol and length.
\<close>

theorem string_creator_refines_minimal:
  "string_creator symbol len [] False = string_creator_minimal symbol len"
  by (simp add: string_creator_def string_creator_minimal_def)

text \<open>
  C10. For a non-negative length the solved \<open>string_creator\<close> returns the symbol
  repeated \<open>length\<close> times when \<open>make_square\<close> is off, \<open>length\<close> lines of the symbol
  repeated \<open>length\<close> times joined by newlines when it is on, and that body preceded by
  the prefix, a colon and a newline whenever the prefix is non-empty.
\<close>

theorem string_creator_described_ok:
  assumes "0 \<le> len"
  shows "string_creator symbol len prefix make_square =
         string_creator_described symbol (nat len) prefix make_square"
proof -
  from assms have len: "len = int (nat len)" by simp
  have row: "seq_mul symbol len = repeated (nat len) symbol"
    using seq_mul_repeated [of symbol "nat len"] len by simp
  have sq: "join newline (seq_mul [repeated (nat len) symbol] len) =
            lines_joined (nat len) (repeated (nat len) symbol)"
    using seq_mul_singleton [of "repeated (nat len) symbol" "nat len"] len
    by (simp add: join_replicate)
  show ?thesis
    unfolding string_creator_def string_creator_described_def Let_def row sq
    by (simp add: newline_def)
qed

theorem string_creator_described_ok_witness:
  "(0::int) \<le> 2 \<and>
   string_creator ''ab'' 2 ''p'' True = ''p:'' @ [CHR 0x0A] @ ''abab'' @ [CHR 0x0A] @ ''abab'' \<and>
   string_creator ''ab'' 2 [] False = ''abab''"
  using string_creator_described_ok [of 2 "''ab''" "''p''" True]
        string_creator_described_ok [of 2 "''ab''" "[]" False]
  by (simp add: string_creator_described_def numeral_2_eq_2)

section \<open>Properties of the FOOOF app\<close>

text \<open>Runs of the model on the small library.\<close>

lemmas run_defs =
  cycle_def upstream_def load_data_def get_spectrum_def cache_data_def load_data_body_def
  call_def path_to_file_def path_root_def path_parts_def fit_and_render_def fit_stage_def plot_stage_def and_then_def
  render_def getitem_def


lemma demo_warm_cycle:
  "cycle demo_lib (Some ''/a'') demo_params warm_cache =
     (Inr demo_payload, warm_cache,
      [PickChNames, GetData ''EEG039'', Fit (1, 12) 3 Fixed (1, 45),
       PlotAnnotatedModel False, PlotAnnotatedModel True])"
  by (simp add: run_defs demo_lib_def demo_params_def warm_cache_def demo_payload_def)

lemma failing_upstream:
  "upstream failing_fit_lib (Some ''/a'') empty_cache =
     (Inr 10, warm_cache, [ReadRawFif ''/a/sub-01/sub-01-raw.fif'', PickChNames, ComputePsd :: int event])"
  by (simp add: run_defs failing_fit_lib_def demo_lib_def empty_cache_def warm_cache_def)



lemma load_data_miss_raise:
  "load_data_cache c (Some p) = None \<Longrightarrow> read_raw_fif lib (path_to_file p) = Inl e \<Longrightarrow>
   load_data lib (Some p) c = (Inl (Raised e), c, [ReadRawFif (path_to_file p)])"
  by (simp add: load_data_def cache_data_def load_data_body_def call_def)

lemma load_data_miss_none:
  "load_data_cache c None = None \<Longrightarrow> load_data lib None c = (Inl TypeError, c, [])"
  by (simp add: load_data_def cache_data_def load_data_body_def)






text \<open>
  The cache key is the argument of \<open>load_data\<close>, not the file it names: two spellings
  of one directory are two keys, and each of them reads the same file once.
\<close>

lemma same_file_two_spellings:
  "path_to_file ''/a'' = ''/a/sub-01/sub-01-raw.fif'' \<and>
   path_to_file ''/a/'' = ''/a/sub-01/sub-01-raw.fif'' \<and>
   snd (load_all demo_lib [Some ''/a'', Some ''/a/''] empty_cache) =
     [(Some ''/a'', [ReadRawFif ''/a/sub-01/sub-01-raw.fif'' :: int event]),
      (Some ''/a/'', [ReadRawFif ''/a/sub-01/sub-01-raw.fif''])]"
  by (simp add: load_data_def cache_data_def load_data_body_def call_def path_to_file_def path_root_def path_parts_def
        path_root_def path_parts_def demo_lib_def empty_cache_def)



lemma get_spectrum_hit:
  "get_spectrum_cache c () = Some s \<Longrightarrow> get_spectrum lib raw c = (Inr s, c, [])"
  by (simp add: get_spectrum_def cache_data_def)

lemma get_spectrum_miss_ok:
  "get_spectrum_cache c () = None \<Longrightarrow> compute_psd lib raw = Inr s \<Longrightarrow>
   get_spectrum lib raw c =
     (Inr s, c\<lparr>get_spectrum_cache := (get_spectrum_cache c)(() \<mapsto> s)\<rparr>, [ComputePsd])"
  by (simp add: get_spectrum_def cache_data_def call_def)

lemma get_spectrum_stored:
  assumes "get_spectrum lib raw c = (Inr s, c1, l)"
  shows "get_spectrum_cache c1 () = Some s"
  using assms
  by (auto simp: get_spectrum_def cache_data_def call_def split: option.splits sum.splits)

text \<open>
  C2, as the code has it. \<open>get_spectrum\<close> takes no argument, so its cache entry
  has a single key that does not depend on the recording: an existing entry is returned
  for every recording without computing anything; without an entry the spectrum is
  computed from the current recording; and once a call has returned a spectrum, every
  later call returns that same spectrum, whatever recording it is given.
\<close>

theorem get_spectrum_single_entry:
  "(get_spectrum_cache c () = Some s \<longrightarrow> get_spectrum lib raw c = (Inr s, c, [])) \<and>
   (get_spectrum_cache c () = None \<and> compute_psd lib raw = Inr s \<longrightarrow>
      fst (get_spectrum lib raw c) = Inr s \<and> snd (snd (get_spectrum lib raw c)) = [ComputePsd]) \<and>
   (get_spectrum lib raw c = (Inr s, c1, l) \<longrightarrow> get_spectrum lib raw' c1 = (Inr s, c1, []))"
  using get_spectrum_hit [of c s lib raw] get_spectrum_miss_ok [of c lib raw s]
        get_spectrum_stored [of lib raw c s c1 l] get_spectrum_hit [of c1 s lib raw']
  by simp

theorem get_spectrum_single_entry_witness:
  "get_spectrum_cache (empty_cache :: (nat, nat) cache) () = None \<and> compute_psd demo_lib 1 = Inr 10 \<and>
   get_spectrum demo_lib 1 empty_cache =
     (Inr 10, empty_cache\<lparr>get_spectrum_cache := [() \<mapsto> 10]\<rparr>, [ComputePsd :: int event]) \<and>
   get_spectrum demo_lib 2 (empty_cache\<lparr>get_spectrum_cache := [() \<mapsto> 10]\<rparr>) =
     (Inr 10, empty_cache\<lparr>get_spectrum_cache := [() \<mapsto> 10]\<rparr>, ([] :: int event list))"
proof -
  have miss: "get_spectrum_cache (empty_cache :: (nat, nat) cache) () = None"
    by (simp add: empty_cache_def)
  have psd: "compute_psd demo_lib 1 = Inr 10" by (simp add: demo_lib_def)
  have first: "get_spectrum demo_lib 1 empty_cache =
     (Inr 10, empty_cache\<lparr>get_spectrum_cache := [() \<mapsto> 10]\<rparr>, [ComputePsd :: int event])"
    using get_spectrum_miss_ok [OF miss psd] by (simp add: empty_cache_def)
  from get_spectrum_single_entry
         [of empty_cache 10 demo_lib 1 "empty_cache\<lparr>get_spectrum_cache := [() \<mapsto> 10]\<rparr>" "[ComputePsd]" 2]
       miss psd first
  show ?thesis by simp
qed

text \<open>
  C2 as stated fails: after a run on the dataset \<open>/a\<close>, a run on the dataset \<open>/b\<close> loads
  the second recording but gets the spectrum of the first one (10), where a run on \<open>/b\<close>
  from an empty cache gets the spectrum of the second (20).
\<close>

theorem spectrum_not_keyed_on_raw:
  "fst (upstream demo_lib (Some ''/b'')
          (fst (snd (upstream demo_lib (Some ''/a'') empty_cache :: (string error + nat) \<times> (nat, nat) cache \<times> int event list)))
        :: (string error + nat) \<times> (nat, nat) cache \<times> int event list) = Inr 10 \<and>
   fst (upstream demo_lib (Some ''/b'') empty_cache
        :: (string error + nat) \<times> (nat, nat) cache \<times> int event list) = Inr 20"
  by (simp add: upstream_def load_data_def get_spectrum_def cache_data_def load_data_body_def
                call_def path_to_file_def path_root_def path_parts_def demo_lib_def empty_cache_def)










lemma load_data_log:
  assumes "load_data lib k c = (r, c1, l)"
  shows "filter is_fit l = []"
  using assms
  by (auto simp: load_data_def cache_data_def load_data_body_def call_def
           split: option.splits prod.splits sum.splits)

lemma get_spectrum_log:
  assumes "get_spectrum lib raw c = (r, c1, l)"
  shows "filter is_fit l = []"
  using assms
  by (auto simp: get_spectrum_def cache_data_def call_def
           split: option.splits prod.splits sum.splits)

lemma upstream_log:
  fixes lib :: "('raw, 'spec, 'arr, 'n, 'ax, 'e) library"
  assumes run: "upstream lib path c = (r, c2, l)"
  shows "filter is_fit l = []"
proof -
  obtain r1 c1 l1 where ld: "load_data lib path c = (r1, c1, l1)"
    by (metis prod_cases3)
  note q1 = load_data_log [OF ld]
  show ?thesis
  proof (cases r1)
    case (Inl e)
    with run ld q1 show ?thesis by (auto simp: upstream_def Let_def)
  next
    case (Inr raw)
    obtain r3 c3 l3 where gs: "get_spectrum lib raw c1 = (r3, c3, l3)"
      by (metis prod_cases3)
    note q3 = get_spectrum_log [OF gs]
    from run ld Inr gs q1 q3 show ?thesis
      by (auto simp: upstream_def Let_def call_def split: sum.splits)
  qed
qed

lemma upstream_spectrum:
  fixes lib :: "('raw, 'spec, 'arr, 'n, 'ax, 'e) library"
  assumes run: "upstream lib path c = (Inr spec, c2, l)"
  shows "get_spectrum_cache c2 () = Some spec"
proof -
  obtain r1 c1 l1 where ld: "load_data lib path c = (r1, c1, l1)"
    by (metis prod_cases3)
  show ?thesis
  proof (cases r1)
    case (Inl e)
    with run ld show ?thesis by (auto simp: upstream_def Let_def)
  next
    case (Inr raw)
    obtain r3 c3 l3 where gs: "get_spectrum lib raw c1 = (r3, c3, l3)"
      by (metis prod_cases3)
    from run ld Inr gs have "r3 = Inr spec" "c3 = c2"
      by (auto simp: upstream_def Let_def call_def split: sum.splits)
    with gs get_spectrum_stored [of lib raw c1 spec c2 l3] show ?thesis by simp
  qed
qed

lemma fit_stage_cases:
  "fit_stage lib spec ps =
     (case get_data lib spec (channel ps) of
        Inl e \<Rightarrow> (Inl (Raised e), [GetData (channel ps)])
      | Inr (psd, freqs) \<Rightarrow>
          (case fooof_fit lib (peak_width ps) (max_n_peaks ps) (aperiodic_mode ps)
                  freqs (squeeze lib psd) (f_range ps) of
             Inl e \<Rightarrow> (Inl (Raised e),
                        [GetData (channel ps),
                         Fit (peak_width ps) (max_n_peaks ps) (aperiodic_mode ps) (f_range ps)])
           | Inr fm \<Rightarrow> (Inr fm,
                        [GetData (channel ps),
                         Fit (peak_width ps) (max_n_peaks ps) (aperiodic_mode ps) (f_range ps)])))"
  by (simp add: fit_stage_def and_then_def call_def split: sum.splits prod.splits)

lemma plot_stage_log:
  assumes "plot_stage lib fm ps = (r, l)"
  shows "filter is_fit l = []"
  using assms
  by (auto simp: plot_stage_def and_then_def call_def split: sum.splits prod.splits)

lemma fit_and_render_ok:
  assumes "fit_and_render lib spec ps = (Inr payload, l)"
  shows "\<exists>psd freqs fm fig_fit.
           get_data lib spec (channel ps) = Inr (psd, freqs) \<and>
           fooof_fit lib (peak_width ps) (max_n_peaks ps) (aperiodic_mode ps)
             freqs (squeeze lib psd) (f_range ps) = Inr fm \<and>
           render lib fig_fit fm = Inr payload \<and>
           filter is_fit l = [Fit (peak_width ps) (max_n_peaks ps) (aperiodic_mode ps) (f_range ps)]"
proof -
  obtain r1 l1 where fs: "fit_stage lib spec ps = (r1, l1)" by (metis surj_pair)
  from assms fs obtain fm where fm: "r1 = Inr fm"
    by (cases r1) (auto simp: fit_and_render_def and_then_def)
  obtain r2 l2 where pl: "plot_stage lib fm ps = (r2, l2)" by (metis surj_pair)
  from assms fs fm pl obtain fig_fit where fig: "r2 = Inr fig_fit"
    by (cases r2) (auto simp: fit_and_render_def and_then_def)
  from assms fs fm pl fig have rd: "render lib fig_fit fm = Inr payload" and l: "l = l1 @ l2"
    by (auto simp: fit_and_render_def and_then_def)
  from fs fm obtain psd freqs where
    gd: "get_data lib spec (channel ps) = Inr (psd, freqs)" and
    ft: "fooof_fit lib (peak_width ps) (max_n_peaks ps) (aperiodic_mode ps)
           freqs (squeeze lib psd) (f_range ps) = Inr fm" and
    l1: "l1 = [GetData (channel ps), Fit (peak_width ps) (max_n_peaks ps) (aperiodic_mode ps) (f_range ps)]"
    by (auto simp: fit_stage_cases split: sum.splits prod.splits)
  from plot_stage_log [OF pl] l l1
  have "filter is_fit l = [Fit (peak_width ps) (max_n_peaks ps) (aperiodic_mode ps) (f_range ps)]"
    by simp
  with gd ft rd show ?thesis by blast
qed

text \<open>
  C8. Whatever the cache holds, a run that displays a payload has executed the library's
  fit exactly once, with the parameter set of that run, on the data of the cached
  spectrum, and the payload is rendered from the result of that fit. Nothing of the fit
  is kept in the cache.
\<close>

theorem fit_fresh_every_cycle:
  fixes lib :: "('raw, 'spec, 'arr, 'n, 'ax, 'e) library"
  assumes "cycle lib path ps c = (Inr payload, c1, l)"
  shows "filter is_fit l = [Fit (peak_width ps) (max_n_peaks ps) (aperiodic_mode ps) (f_range ps)] \<and>
         (\<exists>spec psd freqs fm fig_fit.
            get_spectrum_cache c1 () = Some spec \<and>
            get_data lib spec (channel ps) = Inr (psd, freqs) \<and>
            fooof_fit lib (peak_width ps) (max_n_peaks ps) (aperiodic_mode ps)
              freqs (squeeze lib psd) (f_range ps) = Inr fm \<and>
            render lib fig_fit fm = Inr payload)"
proof -
  obtain u cu lu where up: "upstream lib path c = (u, cu, lu)"
    by (metis prod_cases3)
  from assms up obtain spec where u: "u = Inr spec"
    by (cases u) (auto simp: cycle_def)
  obtain r2 l2 where fr: "fit_and_render lib spec ps = (r2, l2)" by (metis surj_pair)
  from assms up u fr have eqs: "r2 = Inr payload" "c1 = cu" "l = lu @ l2"
    by (auto simp: cycle_def)
  from upstream_spectrum [of lib path c spec c1 lu] up u eqs
  have sp: "get_spectrum_cache c1 () = Some spec" by simp
  from upstream_log [OF up] have quiet: "filter is_fit lu = []" .
  from fit_and_render_ok [of lib spec ps payload l2] fr eqs quiet sp show ?thesis
    by auto
qed

theorem fit_fresh_every_cycle_witness:
  "cycle demo_lib (Some ''/a'') demo_params warm_cache =
     (Inr demo_payload, warm_cache,
      [PickChNames, GetData ''EEG039'', Fit (1, 12) 3 Fixed (1, 45),
       PlotAnnotatedModel False, PlotAnnotatedModel True]) \<and>
   filter is_fit
     [PickChNames, GetData ''EEG039'', Fit (1, 12) 3 Fixed (1, 45),
      PlotAnnotatedModel False, PlotAnnotatedModel True] =
     [Fit (peak_width demo_params) (max_n_peaks demo_params) (aperiodic_mode demo_params)
        (f_range demo_params)] \<and>
   (\<exists>spec psd freqs fm fig_fit.
      get_spectrum_cache warm_cache () = Some spec \<and>
      get_data demo_lib spec (channel demo_params) = Inr (psd, freqs) \<and>
      fooof_fit demo_lib (peak_width demo_params) (max_n_peaks demo_params)
        (aperiodic_mode demo_params) freqs (squeeze demo_lib psd) (f_range demo_params) = Inr fm \<and>
      render demo_lib fig_fit fm = Inr demo_payload)"
  using fit_fresh_every_cycle [OF demo_warm_cycle] demo_warm_cycle by blast

lemma getitem_first: "xs \<noteq> [] \<Longrightarrow> getitem xs 0 = Inr (hd xs)"
  by (cases xs) (simp_all add: getitem_def)

lemma getitem_last: "xs \<noteq> [] \<Longrightarrow> getitem xs (- 1) = Inr (last xs)"
  by (cases xs rule: rev_cases) (simp_all add: getitem_def nth_append)

lemma getitem2_first: "row \<noteq> [] \<Longrightarrow> getitem2 (row # rows) 0 0 = Inr (hd row)"
  by (simp add: getitem2_def getitem_first)

lemma render_ok:
  assumes "well_formed fm"
  shows "render lib fig_fit fm =
           Inr \<lparr>figure = fig_fit,
                metrics = [(''Offset'', round2 lib (hd (aperiodic_params fm))),
                           (''Exponent'', round2 lib (last (aperiodic_params fm)))] @
                          (case peak_params fm of
                             [] \<Rightarrow> []
                           | row # rows \<Rightarrow> [(peak_label, round2 lib (hd row))])\<rparr>"
proof -
  from assms have ap: "aperiodic_params fm \<noteq> []" by (simp add: well_formed_def)
  show ?thesis
  proof (cases "peak_params fm")
    case Nil
    with ap show ?thesis
      by (simp add: render_def getitem_first getitem_last)
  next
    case (Cons row rows)
    with assms have "row \<noteq> []" by (simp add: well_formed_def)
    with ap Cons show ?thesis
      by (simp add: render_def getitem_first getitem_last getitem2_first)
  qed
qed

lemma fit_and_render_steps:
  assumes "fit_stage lib spec ps = (Inr fm, l1)" and "plot_stage lib fm ps = (Inr fig_fit, l2)"
  shows "fit_and_render lib spec ps = (render lib fig_fit fm, l1 @ l2)"
  using assms by (simp add: fit_and_render_def and_then_def)

text \<open>
  C5, as the code has it. Whenever the fit returns a well-formed fit result and the
  figure is drawn, the display never fails: the run shows the figure and the rounded
  offset (the first aperiodic parameter) and exponent (the last one), followed by the
  rounded centre frequency of the first peak when there is a peak, and by nothing when
  the fit found none. The display of a well-formed fit result by itself never fails.
\<close>

theorem render_after_fit:
  assumes "well_formed fm"
  shows "render lib fig_fit fm =
           Inr \<lparr>figure = fig_fit,
                metrics = [(''Offset'', round2 lib (hd (aperiodic_params fm))),
                           (''Exponent'', round2 lib (last (aperiodic_params fm)))] @
                          (case peak_params fm of
                             [] \<Rightarrow> []
                           | row # rows \<Rightarrow> [(peak_label, round2 lib (hd row))])\<rparr> \<and>
         (fit_stage lib spec ps = (Inr fm, l1) \<and> plot_stage lib fm ps = (Inr fig_fit, l2) \<longrightarrow>
            fit_and_render lib spec ps =
              (Inr \<lparr>figure = fig_fit,
                    metrics = [(''Offset'', round2 lib (hd (aperiodic_params fm))),
                               (''Exponent'', round2 lib (last (aperiodic_params fm)))] @
                              (case peak_params fm of
                                 [] \<Rightarrow> []
                               | row # rows \<Rightarrow> [(peak_label, round2 lib (hd row))])\<rparr>,
               l1 @ l2))"
  using render_ok [OF assms, of lib fig_fit] fit_and_render_steps [of lib spec ps fm l1 fig_fit l2]
  by simp

theorem render_after_fit_witness:
  "well_formed \<lparr>aperiodic_params = [1, 2, 3 :: int], peak_params = [[10, 1, 2]]\<rparr> \<and>
   render demo_lib [] \<lparr>aperiodic_params = [1, 2, 3], peak_params = [[10, 1, 2]]\<rparr> =
     Inr \<lparr>figure = [], metrics = [(''Offset'', 1), (''Exponent'', 3), (peak_label, 10)]\<rparr> \<and>
   well_formed \<lparr>aperiodic_params = [10, 44 :: int], peak_params = []\<rparr> \<and>
   fit_stage demo_lib 10 demo_params =
     (Inr \<lparr>aperiodic_params = [10, 44], peak_params = []\<rparr>,
      [GetData ''EEG039'', Fit (1, 12) 3 Fixed (1, 45)]) \<and>
   plot_stage demo_lib \<lparr>aperiodic_params = [10, 44], peak_params = []\<rparr> demo_params =
     (Inr [(''Linear axes'', ''linear''), (''Log-scaled axes'', ''log'')],
      [PlotAnnotatedModel False, PlotAnnotatedModel True]) \<and>
   fit_and_render demo_lib 10 demo_params =
     (Inr \<lparr>figure = [(''Linear axes'', ''linear''), (''Log-scaled axes'', ''log'')],
           metrics = [(''Offset'', 10), (''Exponent'', 44)]\<rparr>,
      [GetData ''EEG039'', Fit (1, 12) 3 Fixed (1, 45),
       PlotAnnotatedModel False, PlotAnnotatedModel True])"
proof -
  have w1: "well_formed \<lparr>aperiodic_params = [1, 2, 3 :: int], peak_params = [[10, 1, 2]]\<rparr>"
    by (simp add: well_formed_def)
  have w2: "well_formed \<lparr>aperiodic_params = [10, 44 :: int], peak_params = []\<rparr>"
    by (simp add: well_formed_def)
  have fs: "fit_stage demo_lib 10 demo_params =
     (Inr \<lparr>aperiodic_params = [10, 44], peak_params = []\<rparr>,
      [GetData ''EEG039'', Fit (1, 12) 3 Fixed (1, 45)])"
    by (simp add: fit_stage_cases demo_lib_def demo_params_def)
  have pl: "plot_stage demo_lib \<lparr>aperiodic_params = [10, 44], peak_params = []\<rparr> demo_params =
     (Inr [(''Linear axes'', ''linear''), (''Log-scaled axes'', ''log'')],
      [PlotAnnotatedModel False, PlotAnnotatedModel True :: int event])"
    by (simp add: plot_stage_def and_then_def call_def demo_lib_def)
  from render_after_fit [OF w1, of demo_lib "[]"]
  have r1: "render demo_lib [] \<lparr>aperiodic_params = [1, 2, 3], peak_params = [[10, 1, 2]]\<rparr> =
     Inr \<lparr>figure = [], metrics = [(''Offset'', 1), (''Exponent'', 3), (peak_label, 10)]\<rparr>"
    by (simp add: demo_lib_def)
  from render_after_fit [OF w2, of demo_lib _ 10 demo_params] fs pl
  have r2: "fit_and_render demo_lib 10 demo_params =
     (Inr \<lparr>figure = [(''Linear axes'', ''linear''), (''Log-scaled axes'', ''log'')],
           metrics = [(''Offset'', 10), (''Exponent'', 44)]\<rparr>,
      [GetData ''EEG039'', Fit (1, 12) 3 Fixed (1, 45),
       PlotAnnotatedModel False, PlotAnnotatedModel True])"
    by (simp add: demo_lib_def)
  from w1 w2 fs pl r1 r2 show ?thesis by simp
qed

text \<open>
  C5 as stated fails: for the spectrum 10 and the parameter set of the usual scenario,
  with a fit that raises, the fit followed by the display ends with the raised error.
\<close>

theorem render_after_failed_fit:
  "fit_and_render failing_fit_lib 10 demo_params =
     (Inl (Raised ''FitError''), [GetData ''EEG039'', Fit (1, 12) 3 Fixed (1, 45)])"
  by (simp add: fit_and_render_def fit_stage_cases and_then_def failing_fit_lib_def
        demo_lib_def demo_params_def)

text \<open>
  C3, as the code has it. When the library's fit raises, the run ends there with that
  error: nothing is plotted, no metric is displayed and no replacement display is
  produced.
\<close>

theorem fit_error_propagates:
  fixes lib :: "('raw, 'spec, 'arr, 'n, 'ax, 'e) library"
  assumes "upstream lib path c = (Inr spec, c1, l)"
    and "get_data lib spec (channel ps) = Inr (psd, freqs)"
    and "fooof_fit lib (peak_width ps) (max_n_peaks ps) (aperiodic_mode ps)
           freqs (squeeze lib psd) (f_range ps) = Inl e"
  shows "cycle lib path ps c =
           (Inl (Raised e), c1,
            l @ [GetData (channel ps),
                 Fit (peak_width ps) (max_n_peaks ps) (aperiodic_mode ps) (f_range ps)])"
  using assms
  by (simp add: cycle_def fit_and_render_def fit_stage_cases and_then_def)

theorem fit_error_propagates_witness:
  "upstream failing_fit_lib (Some ''/a'') empty_cache =
     (Inr 10, warm_cache, [ReadRawFif ''/a/sub-01/sub-01-raw.fif'', PickChNames, ComputePsd :: int event]) \<and>
   get_data failing_fit_lib 10 (channel demo_params) = Inr ([10], [1, 2, 3]) \<and>
   fooof_fit failing_fit_lib (peak_width demo_params) (max_n_peaks demo_params)
     (aperiodic_mode demo_params) [1, 2, 3] (squeeze failing_fit_lib [10]) (f_range demo_params) =
     Inl ''FitError'' \<and>
   cycle failing_fit_lib (Some ''/a'') demo_params empty_cache =
     (Inl (Raised ''FitError''), warm_cache,
      [ReadRawFif ''/a/sub-01/sub-01-raw.fif'', PickChNames, ComputePsd, GetData ''EEG039'',
       Fit (1, 12) 3 Fixed (1, 45)])"
proof -
  have gd: "get_data failing_fit_lib 10 (channel demo_params) = Inr ([10], [1, 2, 3])"
    by (simp add: failing_fit_lib_def demo_lib_def demo_params_def)
  have ft: "fooof_fit failing_fit_lib (peak_width demo_params) (max_n_peaks demo_params)
     (aperiodic_mode demo_params) [1, 2, 3] (squeeze failing_fit_lib [10]) (f_range demo_params) =
     Inl ''FitError''"
    by (simp add: failing_fit_lib_def)
  from fit_error_propagates [OF failing_upstream gd ft] failing_upstream gd ft
  show ?thesis by (simp add: demo_params_def)
qed

text \<open>
  C3 as stated fails: with a fit that raises, the outcome of the run is the raised error,
  and the last thing the run executes is the fit.
\<close>

theorem fit_error_not_recovered:
  "fst (cycle failing_fit_lib (Some ''/a'') demo_params empty_cache) = Inl (Raised ''FitError'') \<and>
   snd (snd (cycle failing_fit_lib (Some ''/a'') demo_params empty_cache)) =
     [ReadRawFif ''/a/sub-01/sub-01-raw.fif'', PickChNames, ComputePsd,
      GetData ''EEG039'', Fit (1, 12) 3 Fixed (1, 45)]"
  by (simp add: cycle_def upstream_def load_data_def get_spectrum_def cache_data_def
        load_data_body_def call_def path_to_file_def path_root_def path_parts_def fit_and_render_def fit_stage_def
        and_then_def failing_fit_lib_def demo_lib_def demo_params_def empty_cache_def)

text \<open>
  C6, as the code has it. With the path unset the script shows its warning, then
  \<open>load_data\<close> fails and the run ends without a library call. With a path whose file
  the library cannot read, the run ends with the library's error after a single read
  attempt and shows no warning. In both cases the cache is unchanged.
\<close>

theorem unresolved_path_fails:
  fixes lib :: "('raw, 'spec, 'arr, 'n, 'ax, 'e) library"
  shows
  "(load_data_cache c None = None \<longrightarrow>
      cycle lib None ps c = (Inl TypeError, c, [Warning path_warning])) \<and>
   (load_data_cache c (Some p) = None \<and> read_raw_fif lib (path_to_file p) = Inl e \<longrightarrow>
      cycle lib (Some p) ps c = (Inl (Raised e), c, [ReadRawFif (path_to_file p)]))"
  using load_data_miss_none [of c lib] load_data_miss_raise [of c p lib e]
  by (simp add: cycle_def upstream_def Let_def)

theorem unresolved_path_fails_witness:
  "load_data_cache (empty_cache :: (nat, nat) cache) None = None \<and>
   cycle demo_lib None demo_params empty_cache = (Inl TypeError, empty_cache, [Warning path_warning]) \<and>
   load_data_cache (empty_cache :: (nat, nat) cache) (Some ''/nowhere'') = None \<and>
   read_raw_fif demo_lib (path_to_file ''/nowhere'') = Inl ''FileNotFoundError'' \<and>
   cycle demo_lib (Some ''/nowhere'') demo_params empty_cache =
     (Inl (Raised ''FileNotFoundError''), empty_cache, [ReadRawFif (path_to_file ''/nowhere'')])"
proof -
  have m1: "load_data_cache (empty_cache :: (nat, nat) cache) None = None"
    and m2: "load_data_cache (empty_cache :: (nat, nat) cache) (Some ''/nowhere'') = None"
    by (simp_all add: empty_cache_def)
  have bad: "read_raw_fif demo_lib (path_to_file ''/nowhere'') = Inl ''FileNotFoundError''"
    by (simp add: demo_lib_def path_to_file_def path_root_def path_parts_def)
  from unresolved_path_fails [of empty_cache demo_lib demo_params "''/nowhere''" "''FileNotFoundError''"]
       m1 m2 bad
  show ?thesis by simp
qed

text \<open>
  C6 as stated fails: for a path that is set but has no recording file the run ends with
  the library's error after one read attempt, and the script shows no warning.
\<close>

theorem missing_file_without_warning:
  "fst (cycle demo_lib (Some ''/nowhere'') demo_params empty_cache) = Inl (Raised ''FileNotFoundError'') \<and>
   snd (snd (cycle demo_lib (Some ''/nowhere'') demo_params empty_cache)) =
     [ReadRawFif ''/nowhere/sub-01/sub-01-raw.fif'']"
  by (simp add: run_defs demo_lib_def empty_cache_def)

end
